theory Spec2Isabelle
  imports Main "HOL-Library.Word"
begin

section \<open>Access policies (property.h, lines 23--36 and 90--95)\<close>

text \<open>
  The third template argument of \<^verbatim>\<open>util::property\<close> is a type. Three empty classes
  are the access policies; every other type is a tag the concept refuses.
\<close>

datatype type_tag = private_get_set | public_get | public_get_set | other_type string

definition is_access_policy :: "type_tag \<Rightarrow> bool" where
  "is_access_policy T \<longleftrightarrow> T = private_get_set \<or> T = public_get \<or> T = public_get_set"

definition is_public_get :: "type_tag \<Rightarrow> bool" where
  "is_public_get TAccessPolicy \<longleftrightarrow>
     TAccessPolicy = public_get \<or> TAccessPolicy = public_get_set"

definition is_public_set :: "type_tag \<Rightarrow> bool" where
  "is_public_set TAccessPolicy \<longleftrightarrow> TAccessPolicy = public_get_set"


section \<open>The member functions the classes declare\<close>

datatype access_specifier = Public | Protected | Private

datatype member_name =
    Value_constructor
  | Destructor
  | Move_constructor
  | Copy_constructor
  | Move_assignment
  | Copy_assignment
  | Conversion
  | Value_assignment
  | Value_getter

datatype result_type = No_result | Self_ref | Value_ref | Const_value_ref

record member_decl =
  decl_name :: member_name
  decl_access :: access_specifier
  decl_requires :: "type_tag \<Rightarrow> bool"
  decl_const :: bool
  decl_result :: result_type

text \<open>
  \<^verbatim>\<open>impl::data_storage\<close> (lines 54--83): every member function is protected; the two
  overloads of \<^verbatim>\<open>value()\<close> differ in their const qualification and in the reference
  they return.
\<close>

definition data_storage_members :: "member_decl list" where
  "data_storage_members =
    [ \<lparr>decl_name = Value_constructor, decl_access = Protected, decl_requires = (\<lambda>_. True),
       decl_const = False, decl_result = No_result\<rparr>,
      \<lparr>decl_name = Destructor, decl_access = Protected, decl_requires = (\<lambda>_. True),
       decl_const = False, decl_result = No_result\<rparr>,
      \<lparr>decl_name = Move_constructor, decl_access = Protected, decl_requires = (\<lambda>_. True),
       decl_const = False, decl_result = No_result\<rparr>,
      \<lparr>decl_name = Copy_constructor, decl_access = Protected, decl_requires = (\<lambda>_. True),
       decl_const = False, decl_result = No_result\<rparr>,
      \<lparr>decl_name = Move_assignment, decl_access = Protected, decl_requires = (\<lambda>_. True),
       decl_const = False, decl_result = Self_ref\<rparr>,
      \<lparr>decl_name = Copy_assignment, decl_access = Protected, decl_requires = (\<lambda>_. True),
       decl_const = False, decl_result = Self_ref\<rparr>,
      \<lparr>decl_name = Value_getter, decl_access = Protected, decl_requires = (\<lambda>_. True),
       decl_const = False, decl_result = Value_ref\<rparr>,
      \<lparr>decl_name = Value_getter, decl_access = Protected, decl_requires = (\<lambda>_. True),
       decl_const = True, decl_result = Const_value_ref\<rparr> ]"

text \<open>
  \<^verbatim>\<open>util::property\<close> (lines 152--192), in the order of the source. The three
  conversion operators and the two value assignments carry a requires-clause over the
  policy; none of them is a const member function.
\<close>

definition property_members :: "member_decl list" where
  "property_members =
    [ \<lparr>decl_name = Value_constructor, decl_access = Public, decl_requires = (\<lambda>_. True),
       decl_const = False, decl_result = No_result\<rparr>,
      \<lparr>decl_name = Destructor, decl_access = Public, decl_requires = (\<lambda>_. True),
       decl_const = False, decl_result = No_result\<rparr>,
      \<lparr>decl_name = Move_constructor, decl_access = Public, decl_requires = (\<lambda>_. True),
       decl_const = False, decl_result = No_result\<rparr>,
      \<lparr>decl_name = Copy_constructor, decl_access = Public, decl_requires = (\<lambda>_. True),
       decl_const = False, decl_result = No_result\<rparr>,
      \<lparr>decl_name = Move_assignment, decl_access = Public, decl_requires = (\<lambda>_. True),
       decl_const = False, decl_result = Self_ref\<rparr>,
      \<lparr>decl_name = Copy_assignment, decl_access = Public, decl_requires = (\<lambda>_. True),
       decl_const = False, decl_result = Self_ref\<rparr>,
      \<lparr>decl_name = Conversion, decl_access = Public,
       decl_requires = (\<lambda>P. is_public_get P \<and> is_public_set P),
       decl_const = False, decl_result = Value_ref\<rparr>,
      \<lparr>decl_name = Conversion, decl_access = Public,
       decl_requires = (\<lambda>P. is_public_get P \<and> \<not> is_public_set P),
       decl_const = False, decl_result = Const_value_ref\<rparr>,
      \<lparr>decl_name = Conversion, decl_access = Private,
       decl_requires = (\<lambda>P. \<not> is_public_get P),
       decl_const = False, decl_result = Value_ref\<rparr>,
      \<lparr>decl_name = Value_assignment, decl_access = Public,
       decl_requires = (\<lambda>P. is_public_set P),
       decl_const = False, decl_result = Value_ref\<rparr>,
      \<lparr>decl_name = Value_assignment, decl_access = Private,
       decl_requires = (\<lambda>P. \<not> is_public_set P),
       decl_const = False, decl_result = Value_ref\<rparr> ]"


section \<open>Which call compiles\<close>

text \<open>
  The class template is constrained by \<^verbatim>\<open>requires(impl::is_access_policy<TAccessPolicy>)\<close>
  (line 144): with any other tag there is no class. An instantiation keeps the member
  functions whose own requires-clause holds. The policy may be left out of the template
  arguments, and is then \<^verbatim>\<open>private_get_set\<close> (line 143).
\<close>

definition policy_argument :: "type_tag option \<Rightarrow> type_tag" where
  "policy_argument arg = (case arg of None \<Rightarrow> private_get_set | Some TAccessPolicy \<Rightarrow> TAccessPolicy)"

definition instantiate :: "type_tag \<Rightarrow> member_decl list option" where
  "instantiate TAccessPolicy =
     (if is_access_policy TAccessPolicy
      then Some (filter (\<lambda>d. decl_requires d TAccessPolicy) property_members)
      else None)"

text \<open>
  A call on an object names a member function; the candidates are the declarations of
  that name whose constraint holds, and on a const object only const member functions.
\<close>

definition viable :: "type_tag \<Rightarrow> bool \<Rightarrow> member_name \<Rightarrow> member_decl list" where
  "viable TAccessPolicy const_object n =
     (case instantiate TAccessPolicy of
        None \<Rightarrow> []
      | Some ms \<Rightarrow>
          filter (\<lambda>d. decl_name d = n \<and> (if const_object then decl_const d else True)) ms)"

text \<open>
  Between overloads that differ in const qualification only, a call on an object that
  is not const takes the one that is not const.
\<close>

definition best :: "bool \<Rightarrow> member_decl list \<Rightarrow> member_decl list" where
  "best const_object ds =
     (if const_object then ds
      else case filter (\<lambda>d. \<not> decl_const d) ds of [] \<Rightarrow> ds | d # ds' \<Rightarrow> d # ds')"

text \<open>The call is well formed when one candidate remains; access is checked afterwards.\<close>

definition selected :: "type_tag \<Rightarrow> bool \<Rightarrow> member_name \<Rightarrow> member_decl option" where
  "selected TAccessPolicy const_object n =
     (case best const_object (viable TAccessPolicy const_object n) of
        [d] \<Rightarrow> Some d
      | _ \<Rightarrow> None)"

text \<open>
  Where the calling code stands: inside a member of some class, inside a class nested
  in some class, inside a member function of the property itself, or in a free function
  (a test body). A class reaches its own members (line 167 calls \<^verbatim>\<open>this->value()\<close>);
  \<^verbatim>\<open>friend TOwner;\<close> (line 147) gives the owner, and with it the classes nested in
  the owner, access to everything the property declares. No other scope is granted any.
\<close>

datatype 'o scope = Member_of 'o | Nested_in 'o | Property_itself | Free_function

fun granted :: "'o \<Rightarrow> 'o scope \<Rightarrow> bool" where
  "granted TOwner (Member_of c) = (c = TOwner)"
| "granted TOwner (Nested_in c) = (c = TOwner)"
| "granted TOwner Property_itself = True"
| "granted TOwner Free_function = False"

definition accessible :: "'o \<Rightarrow> 'o scope \<Rightarrow> access_specifier \<Rightarrow> bool" where
  "accessible TOwner sc acc \<longleftrightarrow> acc = Public \<or> granted TOwner sc"

definition usable :: "'o \<Rightarrow> type_tag \<Rightarrow> 'o scope \<Rightarrow> bool \<Rightarrow> member_name \<Rightarrow> bool" where
  "usable TOwner TAccessPolicy sc const_object n =
     (case selected TAccessPolicy const_object n of
        None \<Rightarrow> False
      | Some d \<Rightarrow> accessible TOwner sc (decl_access d))"


text \<open>
  The storage is a private base (line 145): its public and protected members are private
  members of the property, its private members (\<^verbatim>\<open>m_value\<close>) cannot be named at all.
\<close>

fun through_private_base :: "access_specifier \<Rightarrow> access_specifier option" where
  "through_private_base Public = Some Private"
| "through_private_base Protected = Some Private"
| "through_private_base Private = None"

definition storage_viable :: "bool \<Rightarrow> member_name \<Rightarrow> member_decl list" where
  "storage_viable const_object n =
     filter (\<lambda>d. decl_name d = n \<and> (if const_object then decl_const d else True))
       data_storage_members"

definition storage_selected :: "bool \<Rightarrow> member_name \<Rightarrow> member_decl option" where
  "storage_selected const_object n =
     (case best const_object (storage_viable const_object n) of
        [d] \<Rightarrow> Some d
      | _ \<Rightarrow> None)"

definition storage_usable :: "'o \<Rightarrow> 'o scope \<Rightarrow> bool \<Rightarrow> member_name \<Rightarrow> bool" where
  "storage_usable TOwner sc const_object n =
     (case storage_selected const_object n of
        None \<Rightarrow> False
      | Some d \<Rightarrow>
          (case through_private_base (decl_access d) of
             None \<Rightarrow> False
           | Some acc \<Rightarrow> accessible TOwner sc acc))"


section \<open>Values, storage and objects\<close>

text \<open>
  The value type is a template argument. Its values are HOL values, so a copy of a value
  is that value. Two things are the value type's own: what \<^verbatim>\<open>TValue {}\<close> is, and what
  a move leaves behind in the object moved from.
\<close>

record 'v value_type =
  default_value :: 'v
  moved_from :: "'v \<Rightarrow> 'v"

text \<open>The tests instantiate the property with \<^verbatim>\<open>int\<close>: zero, and a move that copies.\<close>

definition int_type :: "32 word value_type" where
  "int_type = \<lparr>default_value = 0, moved_from = (\<lambda>v. v)\<rparr>"

record 'v data_storage =
  m_value :: 'v

text \<open>\<^verbatim>\<open>data_storage(T&& value) : m_value { std::forward<T>(value) }\<close> (lines 57--60).\<close>

definition data_storage_ctor :: "'v \<Rightarrow> 'v data_storage" where
  "data_storage_ctor v = \<lparr>m_value = v\<rparr>"

text \<open>\<^verbatim>\<open>value()\<close>, const or not, returns \<^verbatim>\<open>m_value\<close> (lines 68--76).\<close>

definition value_of :: "'v data_storage \<Rightarrow> 'v" where
  "value_of st = m_value st"

text \<open>
  The defaulted copy and move operations (lines 63--66) act on the one member. A move
  returns the new object and what is left of the source.
\<close>

definition data_storage_copy :: "'v data_storage \<Rightarrow> 'v data_storage" where
  "data_storage_copy other = \<lparr>m_value = m_value other\<rparr>"

definition data_storage_move ::
  "'v value_type \<Rightarrow> 'v data_storage \<Rightarrow> 'v data_storage \<times> 'v data_storage" where
  "data_storage_move vt other =
     (\<lparr>m_value = m_value other\<rparr>, \<lparr>m_value = moved_from vt (m_value other)\<rparr>)"

text \<open>
  A property is its private base and nothing more. Its constructor (lines 153--156)
  takes the value, or \<^verbatim>\<open>TValue {}\<close> when the argument is left out, and moves it into
  the storage; its copy and move operations are defaulted (lines 159--162).
\<close>

type_synonym 'v property = "'v data_storage"

definition property_ctor :: "'v value_type \<Rightarrow> 'v option \<Rightarrow> 'v property" where
  "property_ctor vt arg =
     data_storage_ctor (case arg of None \<Rightarrow> default_value vt | Some v \<Rightarrow> v)"

definition property_copy :: "'v property \<Rightarrow> 'v property" where
  "property_copy other = data_storage_copy other"

definition property_move :: "'v value_type \<Rightarrow> 'v property \<Rightarrow> 'v property \<times> 'v property" where
  "property_move vt other = data_storage_move vt other"

text \<open>
  The owner of the tests (main.cc, lines 15--37): an aggregate with one member, the
  property. Its copy and move constructors are implicit and act on that member.
\<close>

record 'v dummy_object =
  property :: "'v property"

definition dummy_object_copy :: "'v dummy_object \<Rightarrow> 'v dummy_object" where
  "dummy_object_copy other = \<lparr>property = property_copy (property other)\<rparr>"

definition dummy_object_move ::
  "'v value_type \<Rightarrow> 'v dummy_object \<Rightarrow> 'v dummy_object \<times> 'v dummy_object" where
  "dummy_object_move vt other =
     (case property_move vt (property other) of
        (p, rest) \<Rightarrow> (\<lparr>property = p\<rparr>, \<lparr>property = rest\<rparr>))"


section \<open>Objects in memory\<close>

text \<open>
  Owners live at addresses. A reference to a value is bound either to the value stored
  in the property of the owner at an address, or to a temporary (a literal, a local).
\<close>

type_synonym addr = nat

type_synonym 'v store = "addr \<rightharpoonup> 'v dummy_object"

datatype 'v reference = Temporary 'v | Stored addr

fun deref :: "'v store \<Rightarrow> 'v reference \<Rightarrow> 'v option" where
  "deref s (Temporary v) = Some v"
| "deref s (Stored a) = map_option (\<lambda>obj. value_of (property obj)) (s a)"

text \<open>
  \<^verbatim>\<open>dummy_object obj;\<close> and \<^verbatim>\<open>dummy_object obj { v };\<close>: a new owner in unused
  memory, its property constructed without or with a value.
\<close>

definition construct :: "'v value_type \<Rightarrow> 'v store \<Rightarrow> addr \<Rightarrow> 'v option \<Rightarrow> 'v store option" where
  "construct vt s a arg =
     (case s a of
        Some _ \<Rightarrow> None
      | None \<Rightarrow> Some (s(a \<mapsto> \<lparr>property = property_ctor vt arg\<rparr>)))"

text \<open>The conversion operators (lines 165--180): \<^verbatim>\<open>return this->value();\<close>.\<close>

definition conversion :: "'v store \<Rightarrow> addr \<Rightarrow> 'v reference option" where
  "conversion s a = (case s a of None \<Rightarrow> None | Some obj \<Rightarrow> Some (Stored a))"

text \<open>
  The value assignments (lines 183--192): \<^verbatim>\<open>return this->value() = new_value;\<close>. The
  argument is a reference to const; the result refers to the stored value.
\<close>

definition value_assignment ::
  "'v store \<Rightarrow> addr \<Rightarrow> 'v reference \<Rightarrow> ('v reference \<times> 'v store) option" where
  "value_assignment s a new_value =
     (case s a of
        None \<Rightarrow> None
      | Some obj \<Rightarrow>
          (case deref s new_value of
             None \<Rightarrow> None
           | Some v \<Rightarrow>
               Some (Stored a, s(a \<mapsto> obj\<lparr>property := (property obj)\<lparr>m_value := v\<rparr>\<rparr>))))"

text \<open>
  \<^verbatim>\<open>auto copy { obj };\<close> and \<^verbatim>\<open>auto moved { std::move(obj) };\<close> (main.cc, lines 75
  and 92): a new owner in unused memory, made from the owner at \<open>src\<close>.
\<close>

definition copy_construct :: "'v store \<Rightarrow> addr \<Rightarrow> addr \<Rightarrow> 'v store option" where
  "copy_construct s new src =
     (case s src of
        None \<Rightarrow> None
      | Some obj \<Rightarrow>
          (case s new of
             Some _ \<Rightarrow> None
           | None \<Rightarrow> Some (s(new \<mapsto> dummy_object_copy obj))))"

definition move_construct ::
  "'v value_type \<Rightarrow> 'v store \<Rightarrow> addr \<Rightarrow> addr \<Rightarrow> 'v store option" where
  "move_construct vt s new src =
     (case s src of
        None \<Rightarrow> None
      | Some obj \<Rightarrow>
          (case s new of
             Some _ \<Rightarrow> None
           | None \<Rightarrow>
               (case dummy_object_move vt obj of
                  (fresh, rest) \<Rightarrow> Some (s(src \<mapsto> rest, new \<mapsto> fresh)))))"

text \<open>
  \<^verbatim>\<open>obj2.property = obj.property;\<close> and \<^verbatim>\<open>obj2.property = std::move(obj.property);\<close>
  (main.cc, lines 84 and 101). The argument is a property, so the defaulted copy and
  move assignments (lines 161--162) match it exactly and are the ones called. When a
  property is move-assigned to itself, the state is the one the value type's move leaves.
\<close>

definition copy_assignment :: "'v store \<Rightarrow> addr \<Rightarrow> addr \<Rightarrow> 'v store option" where
  "copy_assignment s dst src =
     (case s dst of
        None \<Rightarrow> None
      | Some d \<Rightarrow>
          (case s src of
             None \<Rightarrow> None
           | Some obj \<Rightarrow> Some (s(dst \<mapsto> d\<lparr>property := property_copy (property obj)\<rparr>))))"

definition move_assignment ::
  "'v value_type \<Rightarrow> 'v store \<Rightarrow> addr \<Rightarrow> addr \<Rightarrow> 'v store option" where
  "move_assignment vt s dst src =
     (case s dst of
        None \<Rightarrow> None
      | Some d \<Rightarrow>
          (case s src of
             None \<Rightarrow> None
           | Some obj \<Rightarrow>
               (case property_move vt (property obj) of
                  (p, rest) \<Rightarrow>
                    Some (s(dst \<mapsto> d\<lparr>property := p\<rparr>, src \<mapsto> obj\<lparr>property := rest\<rparr>)))))"

text \<open>\<^verbatim>\<open>b = a = new_value\<close>, which C++ reads as \<^verbatim>\<open>b = (a = new_value)\<close>.\<close>

definition chained_assignment ::
  "'v store \<Rightarrow> addr \<Rightarrow> addr \<Rightarrow> 'v reference \<Rightarrow> ('v reference \<times> 'v store) option" where
  "chained_assignment s b a new_value =
     (case value_assignment s a new_value of
        None \<Rightarrow> None
      | Some (r, s') \<Rightarrow> value_assignment s' b r)"


section \<open>Statements: the static check, then the effect\<close>

datatype error = Ill_formed | No_object

definition checked :: "bool \<Rightarrow> 'a option \<Rightarrow> error + 'a" where
  "checked ok r =
     (if \<not> ok then Inl Ill_formed
      else case r of None \<Rightarrow> Inl No_object | Some x \<Rightarrow> Inr x)"

text \<open>
  \<^verbatim>\<open>static_cast<int>(obj.property)\<close> and \<^verbatim>\<open>obj.property = new_value\<close> in a scope.
  The argument of the assignment is a value, which \<^verbatim>\<open>operator=(const TValue&)\<close>
  matches exactly; the copy and move assignments would first have to convert it with
  the constructor, so they are never the ones chosen for it.
\<close>

definition read_property ::
  "'o \<Rightarrow> type_tag \<Rightarrow> 'o scope \<Rightarrow> 'v store \<Rightarrow> addr \<Rightarrow> error + 'v" where
  "read_property TOwner P sc s a =
     checked (usable TOwner P sc False Conversion)
       (case conversion s a of None \<Rightarrow> None | Some r \<Rightarrow> deref s r)"

definition write_property ::
  "'o \<Rightarrow> type_tag \<Rightarrow> 'o scope \<Rightarrow> 'v store \<Rightarrow> addr \<Rightarrow> 'v reference
     \<Rightarrow> error + ('v reference \<times> 'v store)" where
  "write_property TOwner P sc s a new_value =
     checked (usable TOwner P sc False Value_assignment) (value_assignment s a new_value)"


text \<open>\<^verbatim>\<open>a.property = b.property\<close> and \<^verbatim>\<open>a.property = std::move(b.property)\<close> in a scope.\<close>

definition assign_property ::
  "'o \<Rightarrow> type_tag \<Rightarrow> 'o scope \<Rightarrow> 'v store \<Rightarrow> addr \<Rightarrow> addr \<Rightarrow> error + 'v store" where
  "assign_property TOwner P sc s dst src =
     checked (usable TOwner P sc False Copy_assignment) (copy_assignment s dst src)"

definition move_assign_property ::
  "'o \<Rightarrow> type_tag \<Rightarrow> 'o scope \<Rightarrow> 'v value_type \<Rightarrow> 'v store \<Rightarrow> addr \<Rightarrow> addr
     \<Rightarrow> error + 'v store" where
  "move_assign_property TOwner P sc vt s dst src =
     checked (usable TOwner P sc False Move_assignment) (move_assignment vt s dst src)"


text \<open>
  \<^verbatim>\<open>a.property = util::property<TOwner, TValue, P> { v };\<close> in a scope: the
  constructor (line 153) makes a temporary property, the move assignment (line 161)
  takes it, and the temporary is gone at the end of the statement.
\<close>

definition assign_constructed ::
  "'o \<Rightarrow> type_tag \<Rightarrow> 'o scope \<Rightarrow> 'v value_type \<Rightarrow> 'v store \<Rightarrow> addr \<Rightarrow> 'v
     \<Rightarrow> error + 'v store" where
  "assign_constructed TOwner P sc vt s dst v =
     checked (usable TOwner P sc False Value_constructor
              \<and> usable TOwner P sc False Move_assignment)
       (case s dst of
          None \<Rightarrow> None
        | Some d \<Rightarrow>
            (case property_move vt (property_ctor vt (Some v)) of
               (p, rest) \<Rightarrow> Some (s(dst \<mapsto> d\<lparr>property := p\<rparr>))))"

text \<open>
  The conversion as an expression in a scope, on a property that is const or not: the
  kind of reference the chosen operator is declared to return, and what that reference
  is bound to.
\<close>

definition convert ::
  "'o \<Rightarrow> type_tag \<Rightarrow> 'o scope \<Rightarrow> bool \<Rightarrow> 'v store \<Rightarrow> addr
     \<Rightarrow> error + (result_type \<times> 'v reference)" where
  "convert TOwner P sc const_object s a =
     checked (usable TOwner P sc const_object Conversion)
       (case selected P const_object Conversion of
          None \<Rightarrow> None
        | Some d \<Rightarrow>
            (case conversion s a of
               None \<Rightarrow> None
             | Some r \<Rightarrow> Some (decl_result d, r)))"

text \<open>
  \<^verbatim>\<open>obj.property.value()\<close> in a scope: the overload of the storage chosen for a
  property that is const or not, which returns \<^verbatim>\<open>m_value\<close> of that property.
\<close>

definition storage_value ::
  "'o \<Rightarrow> 'o scope \<Rightarrow> bool \<Rightarrow> 'v store \<Rightarrow> addr \<Rightarrow> error + (result_type \<times> 'v reference)" where
  "storage_value TOwner sc const_object s a =
     checked (storage_usable TOwner sc const_object Value_getter)
       (case storage_selected const_object Value_getter of
          None \<Rightarrow> None
        | Some d \<Rightarrow>
            (case s a of
               None \<Rightarrow> None
             | Some obj \<Rightarrow> Some (decl_result d, Stored a)))"

text \<open>
  An assignment through a reference obtained earlier (the test's \<^verbatim>\<open>obj.property++\<close>
  writes through the converted reference): it replaces the value referred to; through
  a reference to const, or to a temporary, it does not compile.
\<close>

fun assign_through :: "result_type \<times> 'v reference \<Rightarrow> 'v store \<Rightarrow> 'v \<Rightarrow> error + 'v store" where
  "assign_through (Value_ref, Stored a) s w =
     (case s a of
        None \<Rightarrow> Inl No_object
      | Some obj \<Rightarrow> Inr (s(a \<mapsto> obj\<lparr>property := (property obj)\<lparr>m_value := w\<rparr>\<rparr>)))"
| "assign_through (k, r) s w = Inl Ill_formed"


section \<open>Visibility of the accessors\<close>

lemma viable_conversion:
  "viable public_get_set False Conversion =
     [\<lparr>decl_name = Conversion, decl_access = Public,
       decl_requires = (\<lambda>P. is_public_get P \<and> is_public_set P),
       decl_const = False, decl_result = Value_ref\<rparr>]"
  "viable public_get False Conversion =
     [\<lparr>decl_name = Conversion, decl_access = Public,
       decl_requires = (\<lambda>P. is_public_get P \<and> \<not> is_public_set P),
       decl_const = False, decl_result = Const_value_ref\<rparr>]"
  "viable private_get_set False Conversion =
     [\<lparr>decl_name = Conversion, decl_access = Private,
       decl_requires = (\<lambda>P. \<not> is_public_get P),
       decl_const = False, decl_result = Value_ref\<rparr>]"
  "viable (other_type t) c n = []"
  by (simp_all add: viable_def instantiate_def is_access_policy_def property_members_def
      is_public_get_def is_public_set_def)

lemma viable_value_assignment:
  "viable public_get_set False Value_assignment =
     [\<lparr>decl_name = Value_assignment, decl_access = Public,
       decl_requires = (\<lambda>P. is_public_set P),
       decl_const = False, decl_result = Value_ref\<rparr>]"
  "viable public_get False Value_assignment =
     [\<lparr>decl_name = Value_assignment, decl_access = Private,
       decl_requires = (\<lambda>P. \<not> is_public_set P),
       decl_const = False, decl_result = Value_ref\<rparr>]"
  "viable private_get_set False Value_assignment =
     [\<lparr>decl_name = Value_assignment, decl_access = Private,
       decl_requires = (\<lambda>P. \<not> is_public_set P),
       decl_const = False, decl_result = Value_ref\<rparr>]"
  by (simp_all add: viable_def instantiate_def is_access_policy_def property_members_def
      is_public_get_def is_public_set_def)

lemma usable_conversion_iff:
  "usable TOwner P sc False Conversion \<longleftrightarrow>
     P = public_get \<or> P = public_get_set \<or> (P = private_get_set \<and> granted TOwner sc)"
  by (cases P) (simp_all add: usable_def selected_def best_def viable_conversion accessible_def)

lemma usable_value_assignment_iff:
  "usable TOwner P sc False Value_assignment \<longleftrightarrow>
     P = public_get_set \<or> ((P = public_get \<or> P = private_get_set) \<and> granted TOwner sc)"
  by (cases P)
    (simp_all add: usable_def selected_def best_def viable_conversion viable_value_assignment
      accessible_def)

text \<open>
  The two accessors seen from a scope that is granted nothing: the conversion operator
  compiles exactly under \<^verbatim>\<open>public_get\<close> and \<^verbatim>\<open>public_get_set\<close>, the assignment of
  a value exactly under \<^verbatim>\<open>public_get_set\<close>.
\<close>

lemma accessors_outside_owner:
  assumes "\<not> granted TOwner sc"
  shows "(usable TOwner P sc False Conversion \<longleftrightarrow> P = public_get \<or> P = public_get_set)
       \<and> (usable TOwner P sc False Value_assignment \<longleftrightarrow> P = public_get_set)"
  using assms by (simp add: usable_conversion_iff usable_value_assignment_iff)

text \<open>
  The constructor and the defaulted copy and move operations carry no requires-clause
  and stand in the public section, so they compile in every scope under every policy.
\<close>

lemma usable_special_members:
  "usable TOwner P sc False Copy_assignment \<longleftrightarrow> is_access_policy P"
  "usable TOwner P sc False Move_assignment \<longleftrightarrow> is_access_policy P"
  "usable TOwner P sc False Value_constructor \<longleftrightarrow> is_access_policy P"
  by (cases P;
      simp add: usable_def selected_def best_def viable_def instantiate_def
        is_access_policy_def property_members_def accessible_def)+

lemma assign_constructed_replaces:
  assumes "is_access_policy P"
    and "s a = Some obj"
  shows "assign_constructed TOwner P sc vt s a v
           = Inr (s(a \<mapsto> obj\<lparr>property := \<lparr>m_value = v\<rparr>\<rparr>))"
  using assms
  by (simp add: assign_constructed_def usable_special_members checked_def property_move_def
      data_storage_move_def property_ctor_def data_storage_ctor_def)

text \<open>
  Claim C1. The accessors visible from outside the owner are to be exactly those the
  policy grants: both under \<^verbatim>\<open>public_get_set\<close>, the read alone under
  \<^verbatim>\<open>public_get\<close> with an outside write refused, none under \<^verbatim>\<open>private_get_set\<close>,
  the default. The code holds this for the assignment of a value and misses it for the
  assignment of a property: in a test body, on an owner whose \<^verbatim>\<open>int\<close> property holds
  0, \<^verbatim>\<open>obj.property = 13\<close> is refused under \<^verbatim>\<open>public_get\<close> and under the default
  policy, and \<^verbatim>\<open>obj.property = property { 13 }\<close> and
  \<^verbatim>\<open>obj.property = obj2.property\<close> compile there and leave 13 in the property.
\<close>

theorem outside_write_by_property_assignment:
  "policy_argument None = private_get_set
   \<and> write_property ''dummy_object'' public_get Free_function
        [(0::nat) \<mapsto> \<lparr>property = \<lparr>m_value = 0 :: 32 word\<rparr>\<rparr>] 0 (Temporary 13)
      = Inl Ill_formed
   \<and> write_property ''dummy_object'' (policy_argument None) Free_function
        [(0::nat) \<mapsto> \<lparr>property = \<lparr>m_value = 0 :: 32 word\<rparr>\<rparr>] 0 (Temporary 13)
      = Inl Ill_formed
   \<and> assign_constructed ''dummy_object'' public_get Free_function int_type
        [(0::nat) \<mapsto> \<lparr>property = \<lparr>m_value = 0\<rparr>\<rparr>] 0 13
      = Inr [0 \<mapsto> \<lparr>property = \<lparr>m_value = 13\<rparr>\<rparr>]
   \<and> assign_constructed ''dummy_object'' (policy_argument None) Free_function int_type
        [(0::nat) \<mapsto> \<lparr>property = \<lparr>m_value = 0\<rparr>\<rparr>] 0 13
      = Inr [0 \<mapsto> \<lparr>property = \<lparr>m_value = 13\<rparr>\<rparr>]
   \<and> read_property ''dummy_object'' public_get Free_function
        [(0::nat) \<mapsto> \<lparr>property = \<lparr>m_value = 13 :: 32 word\<rparr>\<rparr>] 0
      = Inr 13
   \<and> assign_property ''dummy_object'' public_get Free_function
        [(0::nat) \<mapsto> \<lparr>property = \<lparr>m_value = 0\<rparr>\<rparr>,
         1 \<mapsto> \<lparr>property = \<lparr>m_value = 13 :: 32 word\<rparr>\<rparr>] 0 1
      = Inr [0 \<mapsto> \<lparr>property = \<lparr>m_value = 13\<rparr>\<rparr>, 1 \<mapsto> \<lparr>property = \<lparr>m_value = 13\<rparr>\<rparr>]
   \<and> assign_property ''dummy_object'' (policy_argument None) Free_function
        [(0::nat) \<mapsto> \<lparr>property = \<lparr>m_value = 0\<rparr>\<rparr>,
         1 \<mapsto> \<lparr>property = \<lparr>m_value = 13 :: 32 word\<rparr>\<rparr>] 0 1
      = Inr [0 \<mapsto> \<lparr>property = \<lparr>m_value = 13\<rparr>\<rparr>, 1 \<mapsto> \<lparr>property = \<lparr>m_value = 13\<rparr>\<rparr>]"
proof -
  have pol: "is_access_policy public_get" "is_access_policy private_get_set"
    by (simp_all add: is_access_policy_def)
  have twist:
    "[(0::nat) \<mapsto> \<lparr>property = \<lparr>m_value = 0\<rparr>\<rparr>,
      1 \<mapsto> \<lparr>property = \<lparr>m_value = 13 :: 32 word\<rparr>\<rparr>,
      0 \<mapsto> \<lparr>property = \<lparr>m_value = 13\<rparr>\<rparr>]
     = [0 \<mapsto> \<lparr>property = \<lparr>m_value = 13\<rparr>\<rparr>, 1 \<mapsto> \<lparr>property = \<lparr>m_value = 13\<rparr>\<rparr>]"
    by (rule ext) simp
  show ?thesis
    using twist
    by (simp add: policy_argument_def write_property_def usable_value_assignment_iff
        checked_def assign_constructed_replaces pol int_type_def read_property_def
        usable_conversion_iff conversion_def value_of_def assign_property_def
        usable_special_members copy_assignment_def property_copy_def data_storage_copy_def)
qed

text \<open>
  Claim C9. A policy tag outside the three classes does not instantiate the template,
  and every instantiation has one of the three as its policy.
\<close>

theorem instantiate_only_policies:
  "(instantiate P = None) = (P \<notin> {private_get_set, public_get, public_get_set})
   \<and> (instantiate P \<noteq> None) = (P \<in> {private_get_set, public_get, public_get_set})
   \<and> instantiate (other_type t) = None"
  by (simp add: instantiate_def is_access_policy_def)

theorem instantiate_only_policies_witness:
  "instantiate (other_type ''int'') = None \<and> instantiate public_get \<noteq> None"
  using instantiate_only_policies [of public_get "''int''"] by simp

section \<open>Reading and writing\<close>

lemma value_assignment_Some:
  assumes "s a = Some obj" and "deref s x = Some v"
  shows "value_assignment s a x =
           Some (Stored a, s(a \<mapsto> obj\<lparr>property := (property obj)\<lparr>m_value := v\<rparr>\<rparr>))"
  using assms by (simp add: value_assignment_def)

lemma deref_Stored_update:
  "deref (s(a \<mapsto> obj)) (Stored b) =
     (if b = a then Some (m_value (property obj)) else deref s (Stored b))"
  by (simp add: value_of_def)

text \<open>
  Claim C2. Where the caller may use both accessors, writing a value \<open>v\<close> and then reading
  gives \<open>v\<close>.
\<close>

theorem write_then_read:
  assumes "usable TOwner P sc False Value_assignment"
    and "usable TOwner P sc False Conversion"
    and "s a = Some obj"
    and "deref s x = Some v"
  shows "\<exists>r s'. write_property TOwner P sc s a x = Inr (r, s')
           \<and> read_property TOwner P sc s' a = Inr v"
  using assms
  by (simp add: write_property_def read_property_def checked_def conversion_def
      value_assignment_Some value_of_def)

theorem write_then_read_witness:
  "usable ''dummy_object'' public_get_set Free_function False Value_assignment
   \<and> usable ''dummy_object'' public_get_set Free_function False Conversion
   \<and> [(0::nat) \<mapsto> \<lparr>property = \<lparr>m_value = 0\<rparr>\<rparr>] 0 = Some \<lparr>property = \<lparr>m_value = 0 :: 32 word\<rparr>\<rparr>
   \<and> deref [(0::nat) \<mapsto> \<lparr>property = \<lparr>m_value = 0\<rparr>\<rparr>] (Temporary 12) = Some (12 :: 32 word)
   \<and> (\<exists>r s'. write_property ''dummy_object'' public_get_set Free_function
                [(0::nat) \<mapsto> \<lparr>property = \<lparr>m_value = 0\<rparr>\<rparr>] 0 (Temporary (12 :: 32 word)) = Inr (r, s')
            \<and> read_property ''dummy_object'' public_get_set Free_function s' 0 = Inr 12)"
proof -
  have w: "usable ''dummy_object'' public_get_set Free_function False Value_assignment"
    by (simp add: usable_value_assignment_iff)
  have r: "usable ''dummy_object'' public_get_set Free_function False Conversion"
    by (simp add: usable_conversion_iff)
  have o: "[(0::nat) \<mapsto> \<lparr>property = \<lparr>m_value = 0\<rparr>\<rparr>] 0 = Some \<lparr>property = \<lparr>m_value = 0 :: 32 word\<rparr>\<rparr>"
    by simp
  have d: "deref [(0::nat) \<mapsto> \<lparr>property = \<lparr>m_value = 0 :: 32 word\<rparr>\<rparr>] (Temporary 12) = Some 12"
    by simp
  show ?thesis using w r o d write_then_read [OF w r o d] by simp
qed

text \<open>
  Claim C4. A property constructed with a value \<open>v\<close> stores \<open>v\<close>, and a permitted read
  of it yields \<open>v\<close>; constructed without a value it stores the value type's default.
\<close>

theorem construct_stores_value:
  assumes "s a = None"
    and "usable TOwner P sc False Conversion"
  shows "value_of (property_ctor vt (Some v)) = v
       \<and> value_of (property_ctor vt None) = default_value vt
       \<and> (\<exists>s'. construct vt s a (Some v) = Some s'
               \<and> read_property TOwner P sc s' a = Inr v)
       \<and> (\<exists>s'. construct vt s a None = Some s'
               \<and> read_property TOwner P sc s' a = Inr (default_value vt))"
  using assms
  by (simp add: construct_def property_ctor_def data_storage_ctor_def value_of_def
      read_property_def checked_def conversion_def)

theorem construct_stores_value_witness:
  "Map.empty (0::nat) = (None :: 32 word dummy_object option)
   \<and> usable ''dummy_object'' public_get Free_function False Conversion
   \<and> value_of (property_ctor int_type (Some 13)) = 13
   \<and> value_of (property_ctor int_type None) = 0
   \<and> (\<exists>s'. construct int_type Map.empty 0 (Some 13) = Some s'
           \<and> read_property ''dummy_object'' public_get Free_function s' 0 = Inr 13)
   \<and> (\<exists>s'. construct int_type Map.empty 0 None = Some s'
           \<and> read_property ''dummy_object'' public_get Free_function s' 0 = Inr 0)"
proof -
  have e: "Map.empty (0::nat) = (None :: 32 word dummy_object option)"
    by simp
  have r: "usable ''dummy_object'' public_get Free_function False Conversion"
    by (simp add: usable_conversion_iff)
  show ?thesis
    using e r construct_stores_value [OF e r, of int_type 13]
    by (simp add: int_type_def)
qed

text \<open>
  Claim C5. The value assignment returns a reference to the stored value of the
  property written, which now reads \<open>v\<close>; its declared result is a reference to the value
  under every policy; and in \<^verbatim>\<open>b = a = v\<close> both properties end up holding \<open>v\<close>, as with
  the built-in assignment.
\<close>

theorem value_assignment_returns_stored:
  assumes "s a = Some obj_a"
    and "s b = Some obj_b"
    and "deref s x = Some v"
    and "is_access_policy P"
  shows "map_option decl_result (selected P False Value_assignment) = Some Value_ref
       \<and> (\<exists>s'. value_assignment s a x = Some (Stored a, s')
               \<and> deref s' (Stored a) = Some v)
       \<and> (\<exists>s'. chained_assignment s b a x = Some (Stored b, s')
               \<and> deref s' (Stored a) = Some v \<and> deref s' (Stored b) = Some v)"
proof (intro conjI)
  show "map_option decl_result (selected P False Value_assignment) = Some Value_ref"
    using assms(4)
    by (auto simp add: is_access_policy_def selected_def best_def viable_value_assignment)
next
  show "\<exists>s'. value_assignment s a x = Some (Stored a, s') \<and> deref s' (Stored a) = Some v"
    using assms(1,3) by (simp add: value_assignment_Some value_of_def)
next
  let ?s1 = "s(a \<mapsto> obj_a\<lparr>property := (property obj_a)\<lparr>m_value := v\<rparr>\<rparr>)"
  have first: "value_assignment s a x = Some (Stored a, ?s1)"
    using assms(1,3) by (rule value_assignment_Some)
  have b1: "\<exists>obj. ?s1 b = Some obj"
    using assms(2) by simp
  then obtain obj where obj: "?s1 b = Some obj" ..
  have d1: "deref ?s1 (Stored a) = Some v"
    by (simp add: value_of_def)
  have second: "value_assignment ?s1 b (Stored a) =
      Some (Stored b, ?s1(b \<mapsto> obj\<lparr>property := (property obj)\<lparr>m_value := v\<rparr>\<rparr>))"
    using obj d1 by (rule value_assignment_Some)
  have "deref (?s1(b \<mapsto> obj\<lparr>property := (property obj)\<lparr>m_value := v\<rparr>\<rparr>)) (Stored a) = Some v"
    unfolding deref_Stored_update by simp
  moreover have
    "deref (?s1(b \<mapsto> obj\<lparr>property := (property obj)\<lparr>m_value := v\<rparr>\<rparr>)) (Stored b) = Some v"
    unfolding deref_Stored_update by simp
  ultimately show "\<exists>s'. chained_assignment s b a x = Some (Stored b, s')
      \<and> deref s' (Stored a) = Some v \<and> deref s' (Stored b) = Some v"
    using first second by (simp add: chained_assignment_def)
qed

theorem value_assignment_returns_stored_witness:
  "[(0::nat) \<mapsto> \<lparr>property = \<lparr>m_value = 0\<rparr>\<rparr>, 1 \<mapsto> \<lparr>property = \<lparr>m_value = 7\<rparr>\<rparr>] 0
      = Some \<lparr>property = \<lparr>m_value = 0 :: 32 word\<rparr>\<rparr>
   \<and> [(0::nat) \<mapsto> \<lparr>property = \<lparr>m_value = 0\<rparr>\<rparr>, 1 \<mapsto> \<lparr>property = \<lparr>m_value = 7\<rparr>\<rparr>] 1
      = Some \<lparr>property = \<lparr>m_value = 7 :: 32 word\<rparr>\<rparr>
   \<and> is_access_policy public_get_set
   \<and> (\<exists>s'. value_assignment
             [(0::nat) \<mapsto> \<lparr>property = \<lparr>m_value = 0\<rparr>\<rparr>, 1 \<mapsto> \<lparr>property = \<lparr>m_value = 7\<rparr>\<rparr>] 0
             (Temporary (13 :: 32 word)) = Some (Stored 0, s')
           \<and> deref s' (Stored 0) = Some 13)
   \<and> (\<exists>s'. chained_assignment
             [(0::nat) \<mapsto> \<lparr>property = \<lparr>m_value = 0\<rparr>\<rparr>, 1 \<mapsto> \<lparr>property = \<lparr>m_value = 7\<rparr>\<rparr>] 1 0
             (Temporary (13 :: 32 word)) = Some (Stored 1, s')
           \<and> deref s' (Stored 0) = Some 13 \<and> deref s' (Stored 1) = Some 13)"
proof -
  let ?s = "[(0::nat) \<mapsto> \<lparr>property = \<lparr>m_value = 0\<rparr>\<rparr>, 1 \<mapsto> \<lparr>property = \<lparr>m_value = 7 :: 32 word\<rparr>\<rparr>]"
  have a: "?s 0 = Some \<lparr>property = \<lparr>m_value = 0\<rparr>\<rparr>" by simp
  have b: "?s 1 = Some \<lparr>property = \<lparr>m_value = 7\<rparr>\<rparr>" by simp
  have d: "deref ?s (Temporary 13) = Some 13" by simp
  have p: "is_access_policy public_get_set" by (simp add: is_access_policy_def)
  show ?thesis
    using a b p value_assignment_returns_stored [OF a b d p] by simp
qed


section \<open>Copying and moving owners\<close>

text \<open>
  Claim C6. The copy of an owner whose property holds \<open>v\<close> has a property that reads
  \<open>v\<close>, and the original still reads \<open>v\<close>; a later write to either of the two leaves the
  value of the other as it was.
\<close>

theorem copy_is_independent:
  assumes "s src = Some obj"
    and "s new = None"
    and "value_of (property obj) = v"
  shows "\<exists>s'. copy_construct s new src = Some s'
           \<and> deref s' (Stored new) = Some v
           \<and> deref s' (Stored src) = Some v
           \<and> (\<exists>s''. value_assignment s' new (Temporary w) = Some (Stored new, s'')
                  \<and> deref s'' (Stored new) = Some w
                  \<and> deref s'' (Stored src) = Some v)
           \<and> (\<exists>s''. value_assignment s' src (Temporary w) = Some (Stored src, s'')
                  \<and> deref s'' (Stored src) = Some w
                  \<and> deref s'' (Stored new) = Some v)"
proof -
  from assms(1,2) have ne: "new \<noteq> src"
    by auto
  let ?s' = "s(new \<mapsto> dummy_object_copy obj)"
  have c: "copy_construct s new src = Some ?s'"
    using assms(1,2) by (simp add: copy_construct_def)
  have n: "?s' new = Some (dummy_object_copy obj)"
    by simp
  have o: "?s' src = Some obj"
    using assms(1) ne by simp
  have t: "deref ?s' (Temporary w) = Some w"
    by simp
  have rn: "deref ?s' (Stored new) = Some v"
    using assms(3)
    by (simp add: dummy_object_copy_def property_copy_def data_storage_copy_def value_of_def)
  have ro: "deref ?s' (Stored src) = Some v"
    using assms(1,3) ne by simp
  have wn: "\<exists>s''. value_assignment ?s' new (Temporary w) = Some (Stored new, s'')
      \<and> deref s'' (Stored new) = Some w \<and> deref s'' (Stored src) = Some v"
    unfolding value_assignment_Some [OF n t]
    using ne ro by (simp add: value_of_def)
  have wo: "\<exists>s''. value_assignment ?s' src (Temporary w) = Some (Stored src, s'')
      \<and> deref s'' (Stored src) = Some w \<and> deref s'' (Stored new) = Some v"
    unfolding value_assignment_Some [OF o t]
    using ne rn by (simp add: value_of_def)
  show ?thesis
    using c rn ro wn wo by blast
qed

theorem copy_is_independent_witness:
  "[(0::nat) \<mapsto> \<lparr>property = \<lparr>m_value = 13 :: 32 word\<rparr>\<rparr>] 0
      = Some \<lparr>property = \<lparr>m_value = 13\<rparr>\<rparr>
   \<and> [(0::nat) \<mapsto> \<lparr>property = \<lparr>m_value = 13 :: 32 word\<rparr>\<rparr>] 1 = None
   \<and> value_of (property \<lparr>property = \<lparr>m_value = 13 :: 32 word\<rparr>\<rparr>) = 13
   \<and> (\<exists>s'. copy_construct [0 \<mapsto> \<lparr>property = \<lparr>m_value = 13 :: 32 word\<rparr>\<rparr>] 1 0 = Some s'
           \<and> deref s' (Stored 1) = Some 13
           \<and> deref s' (Stored 0) = Some 13
           \<and> (\<exists>s''. value_assignment s' 1 (Temporary 99) = Some (Stored 1, s'')
                  \<and> deref s'' (Stored 1) = Some 99
                  \<and> deref s'' (Stored 0) = Some 13)
           \<and> (\<exists>s''. value_assignment s' 0 (Temporary 99) = Some (Stored 0, s'')
                  \<and> deref s'' (Stored 0) = Some 99
                  \<and> deref s'' (Stored 1) = Some 13))"
proof -
  let ?obj = "\<lparr>property = \<lparr>m_value = 13 :: 32 word\<rparr>\<rparr>"
  have a: "[(0::nat) \<mapsto> ?obj] 0 = Some ?obj" by simp
  have b: "[(0::nat) \<mapsto> ?obj] 1 = None" by simp
  have c: "value_of (property ?obj) = 13" by (simp add: value_of_def)
  show ?thesis
    by (intro conjI a b c copy_is_independent [OF a b c])
qed

text \<open>
  Claim C7. The owner move-constructed from an owner whose property holds \<open>v\<close> has a
  property that reads \<open>v\<close>, and the property moved from is left with what the value
  type's move leaves of \<open>v\<close>.
\<close>

theorem move_transfers_value:
  assumes "s src = Some obj"
    and "s new = None"
    and "value_of (property obj) = v"
  shows "\<exists>s'. move_construct vt s new src = Some s'
           \<and> deref s' (Stored new) = Some v
           \<and> deref s' (Stored src) = Some (moved_from vt v)"
proof -
  from assms(1,2) have ne: "new \<noteq> src"
    by auto
  have m: "dummy_object_move vt obj =
      (\<lparr>property = \<lparr>m_value = v\<rparr>\<rparr>, \<lparr>property = \<lparr>m_value = moved_from vt v\<rparr>\<rparr>)"
    using assms(3)
    by (simp add: dummy_object_move_def property_move_def data_storage_move_def value_of_def)
  have "move_construct vt s new src =
      Some (s(src \<mapsto> \<lparr>property = \<lparr>m_value = moved_from vt v\<rparr>\<rparr>,
              new \<mapsto> \<lparr>property = \<lparr>m_value = v\<rparr>\<rparr>))"
    using assms(1,2) m by (simp add: move_construct_def)
  then show ?thesis
    using ne by (simp add: value_of_def)
qed

theorem move_transfers_value_witness:
  "[(0::nat) \<mapsto> \<lparr>property = \<lparr>m_value = 13 :: 32 word\<rparr>\<rparr>] 0
      = Some \<lparr>property = \<lparr>m_value = 13\<rparr>\<rparr>
   \<and> [(0::nat) \<mapsto> \<lparr>property = \<lparr>m_value = 13 :: 32 word\<rparr>\<rparr>] 1 = None
   \<and> value_of (property \<lparr>property = \<lparr>m_value = 13 :: 32 word\<rparr>\<rparr>) = 13
   \<and> (\<exists>s'. move_construct int_type [0 \<mapsto> \<lparr>property = \<lparr>m_value = 13\<rparr>\<rparr>] 1 0 = Some s'
           \<and> deref s' (Stored 1) = Some 13
           \<and> deref s' (Stored 0) = Some 13)"
proof -
  let ?obj = "\<lparr>property = \<lparr>m_value = 13 :: 32 word\<rparr>\<rparr>"
  have a: "[(0::nat) \<mapsto> ?obj] 0 = Some ?obj" by simp
  have b: "[(0::nat) \<mapsto> ?obj] 1 = None" by simp
  have c: "value_of (property ?obj) = 13" by (simp add: value_of_def)
  have m: "moved_from int_type (13 :: 32 word) = 13" by (simp add: int_type_def)
  show ?thesis
    by (intro conjI a b c move_transfers_value [OF a b c, of int_type, unfolded m])
qed


section \<open>Assignment between properties\<close>

text \<open>
  Claim C8. For two owners at \<open>a\<close> and \<open>b\<close>, after \<^verbatim>\<open>a.property = b.property\<close>, by copy
  or by move, a permitted read of the property of \<open>a\<close> yields the value the property of
  \<open>b\<close> held. Both assignments compile in every scope and under every policy.
\<close>

theorem assignment_transfers_value:
  assumes "s a = Some obj_a"
    and "s b = Some obj_b"
    and "a \<noteq> b"
    and "usable TOwner P sc False Conversion"
  shows "(\<exists>s'. assign_property TOwner P sc s a b = Inr s'
             \<and> read_property TOwner P sc s' a = Inr (value_of (property obj_b)))
       \<and> (\<exists>s'. move_assign_property TOwner P sc vt s a b = Inr s'
             \<and> read_property TOwner P sc s' a = Inr (value_of (property obj_b)))"
proof -
  have pol: "is_access_policy P"
    using assms(4) by (cases P) (simp_all add: is_access_policy_def usable_conversion_iff)
  have cp: "\<exists>s'. assign_property TOwner P sc s a b = Inr s'
      \<and> read_property TOwner P sc s' a = Inr (value_of (property obj_b))"
    using assms(1,2,4) pol
    by (simp add: assign_property_def copy_assignment_def usable_special_members checked_def
        read_property_def conversion_def property_copy_def data_storage_copy_def value_of_def)
  have mv: "\<exists>s'. move_assign_property TOwner P sc vt s a b = Inr s'
      \<and> read_property TOwner P sc s' a = Inr (value_of (property obj_b))"
    using assms pol
    by (simp add: move_assign_property_def move_assignment_def usable_special_members
        checked_def read_property_def conversion_def property_move_def data_storage_move_def
        value_of_def)
  show ?thesis
    using cp mv by (rule conjI)
qed

theorem assignment_transfers_value_witness:
  "[(0::nat) \<mapsto> \<lparr>property = \<lparr>m_value = 0\<rparr>\<rparr>, 1 \<mapsto> \<lparr>property = \<lparr>m_value = 13\<rparr>\<rparr>] 0
      = Some \<lparr>property = \<lparr>m_value = 0 :: 32 word\<rparr>\<rparr>
   \<and> [(0::nat) \<mapsto> \<lparr>property = \<lparr>m_value = 0\<rparr>\<rparr>, 1 \<mapsto> \<lparr>property = \<lparr>m_value = 13\<rparr>\<rparr>] 1
      = Some \<lparr>property = \<lparr>m_value = 13 :: 32 word\<rparr>\<rparr>
   \<and> (0::nat) \<noteq> 1
   \<and> usable ''dummy_object'' public_get_set Free_function False Conversion
   \<and> (\<exists>s'. assign_property ''dummy_object'' public_get_set Free_function
             [0 \<mapsto> \<lparr>property = \<lparr>m_value = 0\<rparr>\<rparr>, 1 \<mapsto> \<lparr>property = \<lparr>m_value = 13 :: 32 word\<rparr>\<rparr>]
             0 1 = Inr s'
           \<and> read_property ''dummy_object'' public_get_set Free_function s' 0 = Inr 13)
   \<and> (\<exists>s'. move_assign_property ''dummy_object'' public_get_set Free_function int_type
             [0 \<mapsto> \<lparr>property = \<lparr>m_value = 0\<rparr>\<rparr>, 1 \<mapsto> \<lparr>property = \<lparr>m_value = 13 :: 32 word\<rparr>\<rparr>]
             0 1 = Inr s'
           \<and> read_property ''dummy_object'' public_get_set Free_function s' 0 = Inr 13)"
proof -
  let ?s = "[(0::nat) \<mapsto> \<lparr>property = \<lparr>m_value = 0\<rparr>\<rparr>,
             1 \<mapsto> \<lparr>property = \<lparr>m_value = 13 :: 32 word\<rparr>\<rparr>]"
  have a: "?s 0 = Some \<lparr>property = \<lparr>m_value = 0\<rparr>\<rparr>" by simp
  have b: "?s 1 = Some \<lparr>property = \<lparr>m_value = 13\<rparr>\<rparr>" by simp
  have n: "(0::nat) \<noteq> 1" by simp
  have r: "usable ''dummy_object'' public_get_set Free_function False Conversion"
    by (simp add: usable_conversion_iff)
  have v: "value_of (property \<lparr>property = \<lparr>m_value = 13 :: 32 word\<rparr>\<rparr>) = 13"
    by (simp add: value_of_def)
  show ?thesis
    by (intro conjI a b n r
        assignment_transfers_value [OF a b n r, of int_type, unfolded v, THEN conjunct1]
        assignment_transfers_value [OF a b n r, of int_type, unfolded v, THEN conjunct2])
qed

text \<open>
  Claim C10. A write does not change what it reads from: after the copy assignment
  \<^verbatim>\<open>b = a\<close> the property \<open>a\<close> reads what it read before, and after the value write
  \<^verbatim>\<open>p = x\<close> the argument \<open>x\<close>, whatever it refers to, still has its value.
\<close>

theorem write_leaves_source:
  assumes "s a = Some obj_a"
    and "s b = Some obj_b"
    and "s p = Some obj_p"
    and "deref s x = Some v"
  shows "(\<exists>s'. copy_assignment s b a = Some s'
             \<and> deref s' (Stored a) = Some (value_of (property obj_a))
             \<and> deref s (Stored a) = Some (value_of (property obj_a)))
       \<and> (\<exists>r s'. value_assignment s p x = Some (r, s') \<and> deref s' x = Some v)"
proof (rule conjI)
  show "\<exists>s'. copy_assignment s b a = Some s'
      \<and> deref s' (Stored a) = Some (value_of (property obj_a))
      \<and> deref s (Stored a) = Some (value_of (property obj_a))"
    using assms(1,2)
    by (auto simp add: copy_assignment_def property_copy_def data_storage_copy_def value_of_def)
next
  have "deref (s(p \<mapsto> obj_p\<lparr>property := (property obj_p)\<lparr>m_value := v\<rparr>\<rparr>)) x = Some v"
  proof (cases x)
    case (Temporary u)
    with assms(4) show ?thesis by simp
  next
    case (Stored c)
    with assms(4) show ?thesis by (auto simp add: value_of_def)
  qed
  then show "\<exists>r s'. value_assignment s p x = Some (r, s') \<and> deref s' x = Some v"
    using assms(3,4) by (simp add: value_assignment_Some)
qed

theorem write_leaves_source_witness:
  "[(0::nat) \<mapsto> \<lparr>property = \<lparr>m_value = 13\<rparr>\<rparr>, 1 \<mapsto> \<lparr>property = \<lparr>m_value = 7\<rparr>\<rparr>] 0
      = Some \<lparr>property = \<lparr>m_value = 13 :: 32 word\<rparr>\<rparr>
   \<and> [(0::nat) \<mapsto> \<lparr>property = \<lparr>m_value = 13\<rparr>\<rparr>, 1 \<mapsto> \<lparr>property = \<lparr>m_value = 7\<rparr>\<rparr>] 1
      = Some \<lparr>property = \<lparr>m_value = 7 :: 32 word\<rparr>\<rparr>
   \<and> deref [(0::nat) \<mapsto> \<lparr>property = \<lparr>m_value = 13\<rparr>\<rparr>, 1 \<mapsto> \<lparr>property = \<lparr>m_value = 7\<rparr>\<rparr>]
        (Stored 0) = Some (13 :: 32 word)
   \<and> (\<exists>s'. copy_assignment
             [0 \<mapsto> \<lparr>property = \<lparr>m_value = 13\<rparr>\<rparr>, 1 \<mapsto> \<lparr>property = \<lparr>m_value = 7 :: 32 word\<rparr>\<rparr>]
             1 0 = Some s'
           \<and> deref s' (Stored 0) = Some 13)
   \<and> (\<exists>r s'. value_assignment
             [0 \<mapsto> \<lparr>property = \<lparr>m_value = 13\<rparr>\<rparr>, 1 \<mapsto> \<lparr>property = \<lparr>m_value = 7 :: 32 word\<rparr>\<rparr>]
             1 (Stored 0) = Some (r, s')
           \<and> deref s' (Stored 0) = Some 13)"
proof -
  let ?s = "[(0::nat) \<mapsto> \<lparr>property = \<lparr>m_value = 13\<rparr>\<rparr>,
             1 \<mapsto> \<lparr>property = \<lparr>m_value = 7 :: 32 word\<rparr>\<rparr>]"
  have a: "?s 0 = Some \<lparr>property = \<lparr>m_value = 13\<rparr>\<rparr>" by simp
  have b: "?s 1 = Some \<lparr>property = \<lparr>m_value = 7\<rparr>\<rparr>" by simp
  have d: "deref ?s (Stored 0) = Some 13" by (simp add: value_of_def)
  have v: "value_of (property \<lparr>property = \<lparr>m_value = 13 :: 32 word\<rparr>\<rparr>) = 13"
    by (simp add: value_of_def)
  have c: "\<exists>s'. copy_assignment ?s 1 0 = Some s' \<and> deref s' (Stored 0) = Some 13"
    using write_leaves_source [OF a b b d, unfolded v, THEN conjunct1] by blast
  show ?thesis
    by (intro conjI a b d c write_leaves_source [OF a b b d, THEN conjunct2])
qed


section \<open>Read paths and const\<close>

lemma viable_const_object:
  "viable P True n = []"
  by (cases P)
    (simp_all add: viable_def instantiate_def is_access_policy_def property_members_def)

lemma storage_selected_value:
  "storage_selected True Value_getter =
     Some \<lparr>decl_name = Value_getter, decl_access = Protected, decl_requires = (\<lambda>_. True),
           decl_const = True, decl_result = Const_value_ref\<rparr>"
  "storage_selected False Value_getter =
     Some \<lparr>decl_name = Value_getter, decl_access = Protected, decl_requires = (\<lambda>_. True),
           decl_const = False, decl_result = Value_ref\<rparr>"
  by (simp_all add: storage_selected_def storage_viable_def best_def data_storage_members_def)

text \<open>
  Claim C3, as the specification states it, fails. Under \<^verbatim>\<open>public_get_set\<close> and under
  \<^verbatim>\<open>public_get\<close>, the two policies that expose the read accessor, no conversion operator
  is a candidate on a const property, so a read of one does not compile, from outside or
  from the owner; and under \<^verbatim>\<open>public_get\<close> the one read path of a property that is not
  const returns a read-only reference, so there is no mutable one beside it.
\<close>

theorem const_read_path_counterexample:
  "is_public_get public_get_set
   \<and> viable public_get_set True Conversion = []
   \<and> \<not> usable ''dummy_object'' public_get_set Free_function True Conversion
   \<and> \<not> usable ''dummy_object'' public_get_set (Member_of ''dummy_object'') True Conversion
   \<and> is_public_get public_get
   \<and> viable public_get True Conversion = []
   \<and> \<not> usable ''dummy_object'' public_get Free_function True Conversion
   \<and> map decl_result (viable public_get False Conversion) = [Const_value_ref]"
  by (simp add: is_public_get_def viable_const_object usable_def selected_def best_def
      viable_conversion)

text \<open>
  Claim C3, amended. On a live property that is not const, the read accessor of a policy
  that exposes it compiles in every scope and returns a reference bound to the stored
  value itself: under \<^verbatim>\<open>public_get_set\<close> a mutable one, through which a write lands
  in the property; under \<^verbatim>\<open>public_get\<close> a read-only one, through which a write does
  not compile. Either reads the stored value, before and after a later write to the
  property. The const-qualified read path that returns a read-only reference is
  \<^verbatim>\<open>value() const\<close> of the storage: on a const property it is the overload called, it
  is bound to the stored value too, and it can be called from the owner, from the classes
  nested in it and from the property itself, and from nowhere else.
\<close>

theorem read_paths_as_declared:
  assumes "s a = Some obj"
  shows "convert TOwner public_get_set sc False s a = Inr (Value_ref, Stored a)
       \<and> convert TOwner public_get sc False s a = Inr (Const_value_ref, Stored a)
       \<and> deref s (Stored a) = Some (m_value (property obj))
       \<and> (\<exists>s'. assign_through (Value_ref, Stored a) s w = Inr s'
               \<and> s' a = Some (obj\<lparr>property := (property obj)\<lparr>m_value := w\<rparr>\<rparr>)
               \<and> read_property TOwner public_get_set sc s' a = Inr w)
       \<and> assign_through (Const_value_ref, Stored a) s w = Inl Ill_formed
       \<and> (\<exists>r s'. value_assignment s a (Temporary w) = Some (r, s')
               \<and> deref s' (Stored a) = Some w)
       \<and> storage_value TOwner (Member_of TOwner) True s a = Inr (Const_value_ref, Stored a)
       \<and> (storage_usable TOwner sc True Value_getter \<longleftrightarrow> granted TOwner sc)
       \<and> (granted TOwner sc \<longleftrightarrow>
            sc = Member_of TOwner \<or> sc = Nested_in TOwner \<or> sc = Property_itself)"
proof (intro conjI)
  show "convert TOwner public_get_set sc False s a = Inr (Value_ref, Stored a)"
    using assms
    by (simp add: convert_def usable_conversion_iff checked_def selected_def best_def
        viable_conversion conversion_def)
  show "convert TOwner public_get sc False s a = Inr (Const_value_ref, Stored a)"
    using assms
    by (simp add: convert_def usable_conversion_iff checked_def selected_def best_def
        viable_conversion conversion_def)
  show "deref s (Stored a) = Some (m_value (property obj))"
    using assms by (simp add: value_of_def)
  show "\<exists>s'. assign_through (Value_ref, Stored a) s w = Inr s'
      \<and> s' a = Some (obj\<lparr>property := (property obj)\<lparr>m_value := w\<rparr>\<rparr>)
      \<and> read_property TOwner public_get_set sc s' a = Inr w"
    using assms
    by (simp add: read_property_def usable_conversion_iff checked_def conversion_def
        value_of_def)
  show "assign_through (Const_value_ref, Stored a) s w = Inl Ill_formed"
    by simp
  show "\<exists>r s'. value_assignment s a (Temporary w) = Some (r, s') \<and> deref s' (Stored a) = Some w"
    using assms by (simp add: value_assignment_def value_of_def)
  show "storage_value TOwner (Member_of TOwner) True s a = Inr (Const_value_ref, Stored a)"
    using assms
    by (simp add: storage_value_def storage_usable_def storage_selected_value accessible_def
        checked_def)
  show "storage_usable TOwner sc True Value_getter \<longleftrightarrow> granted TOwner sc"
    by (simp add: storage_usable_def storage_selected_value accessible_def)
  show "granted TOwner sc \<longleftrightarrow>
      sc = Member_of TOwner \<or> sc = Nested_in TOwner \<or> sc = Property_itself"
    by (cases sc) auto
qed

theorem read_paths_as_declared_witness:
  "[(0::nat) \<mapsto> \<lparr>property = \<lparr>m_value = 12 :: 32 word\<rparr>\<rparr>] 0
      = Some \<lparr>property = \<lparr>m_value = 12\<rparr>\<rparr>
   \<and> convert ''dummy_object'' public_get_set Free_function False
        [(0::nat) \<mapsto> \<lparr>property = \<lparr>m_value = 12 :: 32 word\<rparr>\<rparr>] 0
      = Inr (Value_ref, Stored 0)
   \<and> convert ''dummy_object'' public_get Free_function False
        [(0::nat) \<mapsto> \<lparr>property = \<lparr>m_value = 12 :: 32 word\<rparr>\<rparr>] 0
      = Inr (Const_value_ref, Stored 0)
   \<and> (\<exists>s'. assign_through (Value_ref, Stored 0)
             [(0::nat) \<mapsto> \<lparr>property = \<lparr>m_value = 12 :: 32 word\<rparr>\<rparr>] 13 = Inr s'
           \<and> read_property ''dummy_object'' public_get_set Free_function s' 0 = Inr 13)
   \<and> storage_value ''dummy_object'' (Member_of ''dummy_object'') True
        [(0::nat) \<mapsto> \<lparr>property = \<lparr>m_value = 12 :: 32 word\<rparr>\<rparr>] 0
      = Inr (Const_value_ref, Stored 0)
   \<and> \<not> storage_usable ''dummy_object'' Free_function True Value_getter"
proof -
  let ?s = "[(0::nat) \<mapsto> \<lparr>property = \<lparr>m_value = 12 :: 32 word\<rparr>\<rparr>]"
  have a: "?s 0 = Some \<lparr>property = \<lparr>m_value = 12\<rparr>\<rparr>" by simp
  note main = read_paths_as_declared
    [where s = "?s" and a = 0 and obj = "\<lparr>property = \<lparr>m_value = 12\<rparr>\<rparr>"
       and TOwner = "''dummy_object''" and sc = Free_function and w = 13, OF a]
  have w: "\<exists>s'. assign_through (Value_ref, Stored 0) ?s 13 = Inr s'
      \<and> read_property ''dummy_object'' public_get_set Free_function s' 0 = Inr 13"
    using main by blast
  have n: "\<not> storage_usable ''dummy_object'' Free_function True Value_getter"
    using main by simp
  show ?thesis
    using main by (intro conjI a w n) blast+
qed

end
